theory Spec2Isabelle
  imports Main
begin

section \<open>Provider registry (connectors module)\<close>

text \<open>
  A connector is a JavaScript object and the reducer only ever copies references to it,
  so a value of the source type \<open>AbstractConnector\<close> is modelled as a reference: the
  address of an object in a store. Two handles are the same connector exactly when
  they are the same reference.
\<close>

datatype AbstractConnector = ObjectAt nat

text \<open>
  The object built by \<open>new InjectedConnector({ supportedChainIds: [...] })\<close>: the
  allow-list of network identifiers handed to the constructor.
\<close>

record InjectedConnector =
  supportedChainIds :: "int list"

text \<open>The store: the objects constructed so far, in order of construction.\<close>

type_synonym store = "InjectedConnector list"

definition newInjectedConnector ::
  "InjectedConnector \<Rightarrow> store \<Rightarrow> AbstractConnector \<times> store" where
  "newInjectedConnector args h = (ObjectAt (length h), h @ [args])"

definition deref :: "store \<Rightarrow> AbstractConnector \<Rightarrow> InjectedConnector option" where
  "deref h r = (case r of ObjectAt a \<Rightarrow> if a < length h then Some (h ! a) else None)"

definition createInjectedMetaMaskProvider :: "store \<Rightarrow> AbstractConnector \<times> store" where
  "createInjectedMetaMaskProvider =
     newInjectedConnector \<lparr>supportedChainIds = [1, 3, 4, 5, 42]\<rparr>"

definition createInjectedTallyProvider :: "store \<Rightarrow> AbstractConnector \<times> store" where
  "createInjectedTallyProvider =
     newInjectedConnector \<lparr>supportedChainIds = [1]\<rparr>"

text \<open>
  The two top-level \<open>export const\<close> statements, run once when the module is loaded,
  in source order. The result is the pair of exported handles and the store afterwards.
\<close>

record exports =
  exportedMetaMaskProvider :: AbstractConnector
  exportedTallyProvider :: AbstractConnector

definition connectorsModule :: "store \<Rightarrow> exports \<times> store" where
  "connectorsModule h0 =
     (let (m, h1) = createInjectedMetaMaskProvider h0;
          (t, h2) = createInjectedTallyProvider h1
      in (\<lparr>exportedMetaMaskProvider = m, exportedTallyProvider = t\<rparr>, h2))"

text \<open>The module is loaded into an empty store.\<close>

definition injectedMetaMaskProvider :: AbstractConnector where
  "injectedMetaMaskProvider = exportedMetaMaskProvider (fst (connectorsModule []))"

definition injectedTallyProvider :: AbstractConnector where
  "injectedTallyProvider = exportedTallyProvider (fst (connectorsModule []))"

definition registryStore :: store where
  "registryStore = snd (connectorsModule [])"


section \<open>Connection state and actions\<close>

text \<open>
  \<open>ConnectionState\<close> is the union of \<open>{ type: "inactive" }\<close> and an object with one of
  five other \<open>type\<close> tags together with a \<open>connector\<close>.
\<close>

datatype ConnectedType = activating | active | rejectedByUser | alreadyPending | failed

datatype ConnectionState =
    Inactive
  | Connected (type: ConnectedType) (connector: AbstractConnector)

abbreviation Activating :: "AbstractConnector \<Rightarrow> ConnectionState" where
  "Activating c \<equiv> Connected activating c"

abbreviation Active :: "AbstractConnector \<Rightarrow> ConnectionState" where
  "Active c \<equiv> Connected active c"

abbreviation RejectedByUser :: "AbstractConnector \<Rightarrow> ConnectionState" where
  "RejectedByUser c \<equiv> Connected rejectedByUser c"

abbreviation AlreadyPending :: "AbstractConnector \<Rightarrow> ConnectionState" where
  "AlreadyPending c \<equiv> Connected alreadyPending c"

abbreviation Failed :: "AbstractConnector \<Rightarrow> ConnectionState" where
  "Failed c \<equiv> Connected failed c"

text \<open>The string in the \<open>type\<close> field of a state object.\<close>

fun typeTag :: "ConnectionState \<Rightarrow> string" where
  "typeTag Inactive = ''inactive''"
| "typeTag (Connected activating c) = ''activating''"
| "typeTag (Connected active c) = ''active''"
| "typeTag (Connected rejectedByUser c) = ''rejectedByUser''"
| "typeTag (Connected alreadyPending c) = ''alreadyPending''"
| "typeTag (Connected failed c) = ''failed''"

text \<open>The \<open>connector\<close> attribute of a state object, \<open>None\<close> where the object has none.\<close>

fun connectorAttribute :: "ConnectionState \<Rightarrow> AbstractConnector option" where
  "connectorAttribute Inactive = None"
| "connectorAttribute (Connected t c) = Some c"

text \<open>A JavaScript \<open>Error\<close>; the reducer reads its \<open>message\<close> only.\<close>

datatype Error = Error (message: string)

datatype ConnectionAction =
    StartActivating AbstractConnector
  | Fail Error
  | FinishActivating
  | Retry
  | Cancel
  | Deactivate


section \<open>Matching an error message against a regular-expression literal\<close>

text \<open>
  The two literals \<open>/user rejected/i\<close> and \<open>/already pending/i\<close> consist of plain
  characters and carry the \<open>ignoreCase\<close> flag. Messages are strings of 8-bit code units.

  With \<open>ignoreCase\<close>, ECMAScript compares canonicalised code units: a code unit is
  replaced by the code unit of its upper-case form, except that a code unit of 128 or
  more is never replaced by one below 128. Every character of the two literals is
  below 128, so only the letters \<open>a\<close> to \<open>z\<close> (code units 97 to 122) are affected
  in a comparison with them; other code units are left as they are.
\<close>

datatype RegExp = RegExp (pattern: string) (ignoreCase: bool)

definition canonicalize :: "bool \<Rightarrow> nat \<Rightarrow> nat" where
  "canonicalize ic cu =
     (if \<not> ic then cu
      else if 97 \<le> cu \<and> cu \<le> 122 then cu - 32
      else cu)"

text \<open>Does the pattern match the subject at its very start?\<close>

primrec matchHere :: "bool \<Rightarrow> string \<Rightarrow> string \<Rightarrow> bool" where
  "matchHere ic [] s = True"
| "matchHere ic (p # ps) s =
     (case s of
        [] \<Rightarrow> False
      | c # cs \<Rightarrow>
          canonicalize ic (of_char c) = canonicalize ic (of_char p) \<and> matchHere ic ps cs)"

text \<open>
  \<open>String.prototype.match\<close> with a non-global expression: the start positions are
  tried from left to right; the result is the matched text, or \<open>None\<close> for \<open>null\<close>.
\<close>

fun match :: "string \<Rightarrow> RegExp \<Rightarrow> string option" where
  "match [] re = (if matchHere (ignoreCase re) (pattern re) [] then Some [] else None)"
| "match (c # cs) re =
     (if matchHere (ignoreCase re) (pattern re) (c # cs)
      then Some (take (length (pattern re)) (c # cs))
      else match cs re)"

text \<open>JavaScript truthiness of a match result: an array is truthy, \<open>null\<close> is falsy.\<close>

definition truthy :: "string option \<Rightarrow> bool" where
  "truthy r = (r \<noteq> None)"


subsection \<open>What "matches case-insensitively" means\<close>

text \<open>
  The reading of "the message matches a phrase, case-insensitively" that the matcher
  above is compared with: some stretch of the message equals the phrase once the
  capital letters \<open>A\<close> to \<open>Z\<close> (code units 65 to 90) of both are made small.
\<close>

definition lowerCase :: "char \<Rightarrow> char" where
  "lowerCase ch =
     (let n = (of_char ch :: nat)
      in if 65 \<le> n \<and> n \<le> 90 then char_of (n + 32) else ch)"

definition containsIgnoringCase :: "string \<Rightarrow> string \<Rightarrow> bool" where
  "containsIgnoringCase txt phrase =
     (\<exists>before found after.
        txt = before @ found @ after \<and> map lowerCase found = map lowerCase phrase)"


section \<open>The connection reducer\<close>

text \<open>What the reducer writes to the console.\<close>

datatype ConsoleValue =
    Text string
  | ActionValue ConnectionAction
  | StateValue ConnectionState

datatype ConsoleCall = Warn ConsoleValue | Log ConsoleValue

text \<open>
  The code after the \<open>switch\<close>, reached when a case ends in \<open>break\<close>: four console
  calls, then \<open>return state\<close>.
\<close>

definition ignoreAction ::
  "ConnectionState \<Rightarrow> ConnectionAction \<Rightarrow> ConnectionState \<times> ConsoleCall list" where
  "ignoreAction state action =
     (state,
      [Warn (Text ''Ignoring connectionReducer action:''),
       Log (ActionValue action),
       Log (Text ''  in state:''),
       Log (StateValue state)])"

text \<open>
  The reducer returns the next state together with the console calls it made.
\<close>

definition connectionReducer ::
  "ConnectionState \<Rightarrow> ConnectionAction \<Rightarrow> ConnectionState \<times> ConsoleCall list" where
  "connectionReducer state action =
     (case action of
        StartActivating c \<Rightarrow> (Connected activating c, [])
      | FinishActivating \<Rightarrow>
          (Connected active
             (if state = Inactive then injectedMetaMaskProvider else connector state), [])
      | Fail error \<Rightarrow>
          if state \<noteq> Inactive then
            (Connected
               (if truthy (match (message error) (RegExp ''user rejected'' True))
                then rejectedByUser
                else if truthy (match (message error) (RegExp ''already pending'' True))
                then alreadyPending
                else failed)
               (connector state), [])
          else ignoreAction state action
      | Retry \<Rightarrow>
          if state \<noteq> Inactive then (Connected activating (connector state), [])
          else ignoreAction state action
      | Cancel \<Rightarrow> (Inactive, [])
      | Deactivate \<Rightarrow> (Inactive, []))"

text \<open>The next state, and the diagnostics, of one reducer call.\<close>

definition reduce :: "ConnectionState \<Rightarrow> ConnectionAction \<Rightarrow> ConnectionState" where
  "reduce state action = fst (connectionReducer state action)"

definition diagnostics :: "ConnectionState \<Rightarrow> ConnectionAction \<Rightarrow> ConsoleCall list" where
  "diagnostics state action = snd (connectionReducer state action)"


section \<open>The matcher finds exactly the case-insensitive occurrences\<close>

lemma canonicalize_eq_lowerCase:
  "canonicalize True (of_char c) = canonicalize True (of_char d)
     \<longleftrightarrow> lowerCase c = lowerCase d"
proof -
  define n where "n = (of_char c :: nat)"
  define m where "m = (of_char d :: nat)"
  have bound: "n < 256" "m < 256"
    by (simp_all add: n_def m_def)
  have chars: "c = char_of n" "d = char_of m"
    by (simp_all add: n_def m_def)
  have "(lowerCase c = lowerCase d) =
          ((if 65 \<le> n \<and> n \<le> 90 then n + 32 else n) mod 256 =
           (if 65 \<le> m \<and> m \<le> 90 then m + 32 else m) mod 256)"
    unfolding lowerCase_def Let_def n_def [symmetric] m_def [symmetric]
    by (simp add: chars)
  also have "\<dots> = (canonicalize True n = canonicalize True m)"
    using bound unfolding canonicalize_def by (auto simp: mod_if)
  finally show ?thesis
    by (simp add: n_def m_def)
qed

lemma matchHere_iff:
  "matchHere True p s \<longleftrightarrow>
     (\<exists>found after. s = found @ after \<and> map lowerCase found = map lowerCase p)"
proof (induction p arbitrary: s)
  case Nil
  then show ?case by simp
next
  case (Cons a p)
  show ?case
  proof (cases s)
    case Nil
    then show ?thesis by simp
  next
    case (Cons c cs)
    show ?thesis
    proof
      assume "matchHere True (a # p) s"
      then have e: "lowerCase c = lowerCase a" and "matchHere True p cs"
        by (simp_all add: Cons canonicalize_eq_lowerCase)
      then obtain found after
        where "cs = found @ after" "map lowerCase found = map lowerCase p"
        using Cons.IH by blast
      then have "s = (c # found) @ after
                 \<and> map lowerCase (c # found) = map lowerCase (a # p)"
        using e Cons by simp
      then show "\<exists>found after. s = found @ after
                   \<and> map lowerCase found = map lowerCase (a # p)"
        by blast
    next
      assume "\<exists>found after. s = found @ after
                \<and> map lowerCase found = map lowerCase (a # p)"
      then obtain found after
        where f: "s = found @ after" "map lowerCase found = map lowerCase (a # p)"
        by blast
      then obtain x xs where x: "found = x # xs"
        by (cases found) auto
      with f Cons have "x = c" "cs = xs @ after" "lowerCase x = lowerCase a"
          "map lowerCase xs = map lowerCase p"
        by simp_all
      then show "matchHere True (a # p) s"
        using Cons.IH [of cs] by (auto simp add: Cons canonicalize_eq_lowerCase)
    qed
  qed
qed

lemma match_iff:
  "truthy (match s re) \<longleftrightarrow>
     (\<exists>before rest. s = before @ rest \<and> matchHere (ignoreCase re) (pattern re) rest)"
proof (induction s)
  case Nil
  then show ?case by (simp add: truthy_def)
next
  case (Cons c cs)
  show ?case
  proof (cases "matchHere (ignoreCase re) (pattern re) (c # cs)")
    case True
    then have "c # cs = [] @ (c # cs)
               \<and> matchHere (ignoreCase re) (pattern re) (c # cs)"
      by simp
    then have "\<exists>before rest. c # cs = before @ rest
                 \<and> matchHere (ignoreCase re) (pattern re) rest"
      by blast
    with True show ?thesis by (simp add: truthy_def)
  next
    case False
    have "(\<exists>before rest. c # cs = before @ rest
             \<and> matchHere (ignoreCase re) (pattern re) rest)
        = (\<exists>before rest. cs = before @ rest
             \<and> matchHere (ignoreCase re) (pattern re) rest)"
      using False by (auto simp add: Cons_eq_append_conv)
    with False Cons show ?thesis by (simp add: truthy_def)
  qed
qed

lemma match_ignoreCase_iff:
  "truthy (match s (RegExp p True)) \<longleftrightarrow> containsIgnoringCase s p"
  unfolding containsIgnoringCase_def match_iff by (simp add: matchHere_iff) blast


section \<open>The loaded connectors module\<close>

lemma connectorsModule_run:
  "connectorsModule h =
     (\<lparr>exportedMetaMaskProvider = ObjectAt (length h),
       exportedTallyProvider = ObjectAt (Suc (length h))\<rparr>,
      h @ [\<lparr>supportedChainIds = [1, 3, 4, 5, 42]\<rparr>, \<lparr>supportedChainIds = [1]\<rparr>])"
  by (simp add: connectorsModule_def createInjectedMetaMaskProvider_def
      createInjectedTallyProvider_def newInjectedConnector_def)

lemma loaded_handles:
  "injectedMetaMaskProvider = ObjectAt 0"
  "injectedTallyProvider = ObjectAt 1"
  "registryStore = [\<lparr>supportedChainIds = [1, 3, 4, 5, 42]\<rparr>, \<lparr>supportedChainIds = [1]\<rparr>]"
  by (simp_all add: injectedMetaMaskProvider_def injectedTallyProvider_def
      registryStore_def connectorsModule_run)


section \<open>Properties of the reducer\<close>

text \<open>
  C1. For every state \<open>s\<close> other than \<open>Inactive\<close> and every error \<open>e\<close>, the action
  \<open>Fail e\<close> leads to a state with the connector of \<open>s\<close>. Its variant is
  \<open>RejectedByUser\<close> if the message of \<open>e\<close> matches "user rejected" case-insensitively,
  else \<open>AlreadyPending\<close> if it matches "already pending" case-insensitively, else
  \<open>Failed\<close>.
\<close>

theorem fail_classifies:
  assumes "s \<noteq> Inactive"
  shows "reduce s (Fail e) =
           Connected
             (if containsIgnoringCase (message e) ''user rejected'' then rejectedByUser
              else if containsIgnoringCase (message e) ''already pending''
                   then alreadyPending
              else failed)
             (connector s)
         \<and> connectorAttribute (reduce s (Fail e)) = connectorAttribute s"
  using assms
  by (cases s) (simp_all add: reduce_def connectionReducer_def match_ignoreCase_iff)

text \<open>
  The three messages of the specification's examples, in the state
  \<open>Activating injectedTallyProvider\<close>.
\<close>

theorem fail_classifies_witness:
  "Activating injectedTallyProvider \<noteq> Inactive
   \<and> reduce (Activating injectedTallyProvider) (Fail (Error ''User Rejected''))
       = RejectedByUser injectedTallyProvider
   \<and> reduce (Activating injectedTallyProvider) (Fail (Error ''Request already pending''))
       = AlreadyPending injectedTallyProvider
   \<and> reduce (Activating injectedTallyProvider) (Fail (Error ''Unknown failure''))
       = Failed injectedTallyProvider"
proof -
  have s: "Activating injectedTallyProvider \<noteq> Inactive"
    by simp
  have m: "containsIgnoringCase ''User Rejected'' ''user rejected''"
    "\<not> containsIgnoringCase ''Request already pending'' ''user rejected''"
    "containsIgnoringCase ''Request already pending'' ''already pending''"
    "\<not> containsIgnoringCase ''Unknown failure'' ''user rejected''"
    "\<not> containsIgnoringCase ''Unknown failure'' ''already pending''"
    unfolding match_ignoreCase_iff [symmetric]
    by (simp_all add: truthy_def canonicalize_def)
  show ?thesis
    using fail_classifies [OF s, of "Error ''User Rejected''"]
      fail_classifies [OF s, of "Error ''Request already pending''"]
      fail_classifies [OF s, of "Error ''Unknown failure''"]
    by (simp add: m)
qed

text \<open>
  C2. For every state \<open>s\<close>, \<open>FinishActivating\<close> leads to an \<open>Active\<close> state. From
  \<open>Inactive\<close> its connector is the general wallet-family handle (the MetaMask
  provider handle, the one with five networks); from any other state the connector
  of \<open>s\<close> carries over. In particular \<open>Activating c\<close> becomes \<open>Active c\<close>.
\<close>

theorem finishActivating_active:
  "reduce s FinishActivating =
     Active (case s of Inactive \<Rightarrow> injectedMetaMaskProvider | Connected t c \<Rightarrow> c)
   \<and> reduce Inactive FinishActivating = Active injectedMetaMaskProvider
   \<and> deref registryStore injectedMetaMaskProvider
       = Some \<lparr>supportedChainIds = [1, 3, 4, 5, 42]\<rparr>
   \<and> reduce (Activating c) FinishActivating = Active c"
  by (cases s) (simp_all add: reduce_def connectionReducer_def loaded_handles deref_def)

text \<open>
  C3. From every state, a single \<open>Cancel\<close> and a single \<open>Deactivate\<close> both lead to
  \<open>Inactive\<close>.
\<close>

theorem cancel_deactivate_inactive:
  "reduce s Cancel = Inactive \<and> reduce s Deactivate = Inactive"
  by (simp add: reduce_def connectionReducer_def)

text \<open>
  C4. For every state \<open>s\<close> other than \<open>Inactive\<close>, \<open>Retry\<close> leads to \<open>Activating c\<close>
  where \<open>c\<close> is the connector of \<open>s\<close>, the same reference and not a new object. In
  \<open>Inactive\<close>, \<open>Retry\<close> changes nothing and the four diagnostic console calls are made.
\<close>

theorem retry_reactivates:
  "(s \<noteq> Inactive \<longrightarrow>
      reduce s Retry = Activating (connector s)
      \<and> connectorAttribute (reduce s Retry) = connectorAttribute s
      \<and> diagnostics s Retry = [])
   \<and> reduce Inactive Retry = Inactive
   \<and> diagnostics Inactive Retry =
       [Warn (Text ''Ignoring connectionReducer action:''),
        Log (ActionValue Retry),
        Log (Text ''  in state:''),
        Log (StateValue Inactive)]"
  by (cases s)
    (simp_all add: reduce_def diagnostics_def connectionReducer_def ignoreAction_def)

theorem retry_reactivates_witness:
  "Failed injectedTallyProvider \<noteq> Inactive
   \<and> reduce (Failed injectedTallyProvider) Retry = Activating injectedTallyProvider
   \<and> connectorAttribute (reduce (Failed injectedTallyProvider) Retry) = Some (ObjectAt 1)"
  using retry_reactivates [of "Failed injectedTallyProvider"]
  by (simp add: loaded_handles)

text \<open>
  C5. For every error \<open>e\<close>, \<open>Fail e\<close> in the state \<open>Inactive\<close> leaves the state
  \<open>Inactive\<close>: the action is ignored, and the four diagnostic console calls are made.
\<close>

theorem fail_when_inactive:
  "reduce Inactive (Fail e) = Inactive
   \<and> diagnostics Inactive (Fail e) =
       [Warn (Text ''Ignoring connectionReducer action:''),
        Log (ActionValue (Fail e)),
        Log (Text ''  in state:''),
        Log (StateValue Inactive)]"
  by (simp add: reduce_def diagnostics_def connectionReducer_def ignoreAction_def)

text \<open>
  C6. For every state and action, the \<open>type\<close> of the next state is one of the six
  named variants, and the next state has a connector whenever it is not \<open>Inactive\<close>.
  The \<open>switch\<close> is left without a \<open>return\<close> exactly for \<open>Retry\<close> and \<open>Fail\<close> in the
  state \<open>Inactive\<close>; then, and only then, the diagnostic is written, and the state
  returned is the input state.
\<close>

theorem reducer_closed:
  "typeTag (reduce s a) \<in>
     set [''inactive'', ''activating'', ''active'',
          ''rejectedByUser'', ''alreadyPending'', ''failed'']
   \<and> (reduce s a \<noteq> Inactive \<longrightarrow> connectorAttribute (reduce s a) \<noteq> None)
   \<and> (diagnostics s a \<noteq> [] \<longleftrightarrow> s = Inactive \<and> (a = Retry \<or> (\<exists>e. a = Fail e)))
   \<and> (diagnostics s a \<noteq> [] \<longrightarrow>
        reduce s a = s
        \<and> diagnostics s a =
            [Warn (Text ''Ignoring connectionReducer action:''),
             Log (ActionValue a),
             Log (Text ''  in state:''),
             Log (StateValue s)])"
proof -
  have tag: "typeTag x \<in>
     set [''inactive'', ''activating'', ''active'',
          ''rejectedByUser'', ''alreadyPending'', ''failed'']" for x
    by (cases x rule: typeTag.cases) simp_all
  have attr: "x \<noteq> Inactive \<longrightarrow> connectorAttribute x \<noteq> None" for x
    by (cases x) simp_all
  have fall: "diagnostics s a \<noteq> [] \<longleftrightarrow> s = Inactive \<and> (a = Retry \<or> (\<exists>e. a = Fail e))"
    by (cases a) (simp_all add: diagnostics_def connectionReducer_def ignoreAction_def)
  have same: "diagnostics s a \<noteq> [] \<longrightarrow>
        reduce s a = s
        \<and> diagnostics s a =
            [Warn (Text ''Ignoring connectionReducer action:''),
             Log (ActionValue a),
             Log (Text ''  in state:''),
             Log (StateValue s)]"
    by (cases a)
      (simp_all add: reduce_def diagnostics_def connectionReducer_def ignoreAction_def)
  show ?thesis
    using tag [of "reduce s a"] attr [of "reduce s a"] fall same by blast
qed

theorem reducer_closed_witness:
  "reduce (Activating injectedTallyProvider) FinishActivating \<noteq> Inactive
   \<and> connectorAttribute (reduce (Activating injectedTallyProvider) FinishActivating) \<noteq> None
   \<and> diagnostics Inactive Retry \<noteq> []
   \<and> reduce Inactive Retry = Inactive"
proof -
  have a: "reduce (Activating injectedTallyProvider) FinishActivating \<noteq> Inactive"
    by (simp add: reduce_def connectionReducer_def)
  have b: "diagnostics Inactive Retry \<noteq> []"
    by (simp add: diagnostics_def connectionReducer_def ignoreAction_def)
  show ?thesis
    using a b reducer_closed [of "Activating injectedTallyProvider" FinishActivating]
      reducer_closed [of Inactive Retry]
    by simp
qed

text \<open>
  C7. For every state and every connector \<open>c\<close>, \<open>StartActivating c\<close> moves the machine
  to \<open>Activating c\<close>, whatever the current state is and whatever connector it held.
\<close>

theorem startActivating_any:
  "reduce s (StartActivating c) = Activating c"
  by (simp add: reduce_def connectionReducer_def)

text \<open>
  C8. \<open>Deactivate\<close> is idempotent: from every state, \<open>Deactivate\<close> dispatched twice in
  a row gives \<open>Inactive\<close> both times; the second call changes nothing. The reducer
  has no failing branch, and neither call writes a diagnostic.
\<close>

theorem deactivate_idempotent:
  "reduce s Deactivate = Inactive
   \<and> reduce (reduce s Deactivate) Deactivate = Inactive
   \<and> reduce (reduce s Deactivate) Deactivate = reduce s Deactivate
   \<and> diagnostics s Deactivate = []
   \<and> diagnostics (reduce s Deactivate) Deactivate = []"
  by (simp add: reduce_def diagnostics_def connectionReducer_def)

text \<open>
  C9. Loading the connectors module constructs exactly two provider handles, two
  different objects: the MetaMask handle with an allow-list of exactly five network
  identifiers (five different ones), the Tally handle with an allow-list of exactly
  one. Loading adds these two objects to the store and changes no object that is
  already there; nothing else in the model writes to the store.
\<close>

theorem registry_two_handles:
  "connectorsModule [] =
     (\<lparr>exportedMetaMaskProvider = injectedMetaMaskProvider,
       exportedTallyProvider = injectedTallyProvider\<rparr>,
      registryStore)
   \<and> length registryStore = 2
   \<and> injectedMetaMaskProvider \<noteq> injectedTallyProvider
   \<and> deref registryStore injectedMetaMaskProvider
       = Some \<lparr>supportedChainIds = [1, 3, 4, 5, 42]\<rparr>
   \<and> deref registryStore injectedTallyProvider = Some \<lparr>supportedChainIds = [1]\<rparr>
   \<and> map (\<lambda>obj. length (supportedChainIds obj)) registryStore = [5, 1]
   \<and> list_all (\<lambda>obj. distinct (supportedChainIds obj)) registryStore
   \<and> snd (connectorsModule h) = h @ registryStore"
  by (simp add: loaded_handles connectorsModule_run deref_def)

text \<open>
  C10. \<open>Retry\<close> is idempotent: a second \<open>Retry\<close> right after a first one changes
  nothing.
\<close>

theorem retry_idempotent:
  "reduce (reduce s Retry) Retry = reduce s Retry"
  by (cases s) (simp_all add: reduce_def connectionReducer_def ignoreAction_def)

end
